theory Spec2Isabelle
  imports Complex_Main "HOL-Library.AList"
begin

section \<open>Python values, dictionaries and exceptions\<close>

text \<open>
  The programs modelled here are \<^verbatim>\<open>src/downloader.py\<close> and \<^verbatim>\<open>src/app.py\<close>.
  A Python \<^verbatim>\<open>str\<close> is a \<^typ>\<open>string\<close>; its characters are the 256 code points of
  \<^typ>\<open>char\<close>. The values found in the dictionaries that the extraction library hands to
  the program (metadata, progress events) are \<^verbatim>\<open>None\<close>, booleans, integers, finite
  floats (each finite float is a rational number) and strings.
\<close>

datatype pyval = PNone | PBool bool | PInt int | PFloat rat | PStr string

text \<open>
  A \<^verbatim>\<open>dict\<close> is an association list in insertion order with distinct keys:
  \<^const>\<open>map_of\<close> reads a key, \<^const>\<open>AList.update\<close> is \<^verbatim>\<open>d[k] = v\<close> (the value is
  replaced in place when the key exists, the pair is appended otherwise).
\<close>

type_synonym ('k, 'v) dict = "('k \<times> 'v) list"

definition dict_update_all :: "('k, 'v) dict \<Rightarrow> ('k, 'v) dict \<Rightarrow> ('k, 'v) dict" where
  \<comment> \<open>\<^verbatim>\<open>d.update(e)\<close>\<close>
  "dict_update_all d e = fold (\<lambda>(k, v). AList.update k v) e d"

definition dict_get :: "('k, 'v) dict \<Rightarrow> 'k \<Rightarrow> 'v \<Rightarrow> 'v" where
  \<comment> \<open>\<^verbatim>\<open>d.get(k, default)\<close>\<close>
  "dict_get d k dflt = (case map_of d k of Some v \<Rightarrow> v | None \<Rightarrow> dflt)"

fun truthy :: "pyval \<Rightarrow> bool" where
  "truthy PNone = False"
| "truthy (PBool b) = b"
| "truthy (PInt n) = (n \<noteq> 0)"
| "truthy (PFloat x) = (x \<noteq> 0)"
| "truthy (PStr s) = (s \<noteq> [])"

section \<open>Quality tiers and output formats\<close>

datatype Quality = BEST | HD_4K | HD_1080 | HD_720 | AUDIO_ONLY

datatype VideoFormat = MP4 | WEBM | MKV | AVI

fun Quality_value :: "Quality \<Rightarrow> string" where
  "Quality_value BEST = ''best[ext=mp4]/best''"
| "Quality_value HD_4K =
     ''best[height<=2160][ext=mp4]/bestvideo[height<=2160]+bestaudio[ext=m4a]/best[height<=2160]''"
| "Quality_value HD_1080 =
     ''best[height<=1080][ext=mp4]/bestvideo[height<=1080]+bestaudio[ext=m4a]/best[height<=1080]''"
| "Quality_value HD_720 =
     ''best[height<=720][ext=mp4]/bestvideo[height<=720]+bestaudio[ext=m4a]/best[height<=720]''"
| "Quality_value AUDIO_ONLY = ''bestaudio''"

fun VideoFormat_value :: "VideoFormat \<Rightarrow> string" where
  "VideoFormat_value MP4 = ''mp4''"
| "VideoFormat_value WEBM = ''webm''"
| "VideoFormat_value MKV = ''mkv''"
| "VideoFormat_value AVI = ''avi''"

section \<open>Paths\<close>

text \<open>
  \<^verbatim>\<open>pathlib.Path\<close> of the standard library, in its POSIX flavour, for a path built from
  one string: the root (\<^verbatim>\<open>''\<close>, \<^verbatim>\<open>'/'\<close> or \<^verbatim>\<open>'//'\<close>) and the components that follow it.
  Empty components and \<^verbatim>\<open>'.'\<close> are dropped when the string is parsed.
\<close>

record PurePath =
  path_root :: string
  path_parts :: "string list"

fun split_sep :: "char \<Rightarrow> string \<Rightarrow> string list" where
  \<comment> \<open>\<^verbatim>\<open>s.split(c)\<close>\<close>
  "split_sep c [] = [[]]"
| "split_sep c (x # xs) =
     (if x = c then [] # split_sep c xs
      else (case split_sep c xs of [] \<Rightarrow> [[x]] | w # ws \<Rightarrow> (x # w) # ws))"

fun join_sep :: "string \<Rightarrow> string list \<Rightarrow> string" where
  \<comment> \<open>\<^verbatim>\<open>sep.join(ws)\<close>\<close>
  "join_sep sep [] = []"
| "join_sep sep [w] = w"
| "join_sep sep (w # v # ws) = w @ sep @ join_sep sep (v # ws)"

definition splitroot :: "string \<Rightarrow> string \<times> string" where
  "splitroot part =
     (case part of
        [] \<Rightarrow> ([], part)
      | c # _ \<Rightarrow>
          if c = CHR ''/'' then
            (let stripped_part = dropWhile (\<lambda>x. x = CHR ''/'') part
             in if length part - length stripped_part = 2 then (''//'', stripped_part)
                else (''/'', stripped_part))
          else ([], part))"

definition Path :: "string \<Rightarrow> PurePath" where
  "Path s =
     (let (r, rel) = splitroot s
      in \<lparr>path_root = r,
          path_parts = filter (\<lambda>x. x \<noteq> [] \<and> x \<noteq> ''.'') (split_sep CHR ''/'' rel)\<rparr>)"

definition path_str :: "PurePath \<Rightarrow> string" where
  \<comment> \<open>\<^verbatim>\<open>str(p)\<close>: the empty path is written \<^verbatim>\<open>'.'\<close>\<close>
  "path_str p =
     (let s = path_root p @ join_sep ''/'' (path_parts p)
      in if s = [] then ''.'' else s)"

definition path_name :: "PurePath \<Rightarrow> string" where
  "path_name p = (if path_parts p = [] then [] else last (path_parts p))"

fun rfind :: "char \<Rightarrow> string \<Rightarrow> nat option" where
  \<comment> \<open>\<^verbatim>\<open>s.rfind(c)\<close>, with \<open>None\<close> for -1\<close>
  "rfind c [] = None"
| "rfind c (x # xs) =
     (case rfind c xs of
        Some i \<Rightarrow> Some (Suc i)
      | None \<Rightarrow> if x = c then Some 0 else None)"

definition path_stem :: "PurePath \<Rightarrow> string" where
  "path_stem p =
     (let name = path_name p
      in case rfind CHR ''.'' name of
           None \<Rightarrow> name
         | Some i \<Rightarrow> if 0 < i \<and> i + 1 < length name then take i name else name)"

section \<open>The downloader and its option set\<close>

record hook_state =
  last_printed_percent :: int
  current_stage :: string

definition DefaultProgressHook_init :: hook_state where
  "DefaultProgressHook_init = \<lparr>last_printed_percent = - 1, current_stage = ''Downloading''\<rparr>"

text \<open>
  A progress hook is the console hook with its two fields, or a callback of the caller
  (the GUI hook is one).
\<close>

datatype 'c progress_hook = DefaultProgressHook hook_state | Callback 'c

record 'c YouTubeDownloader =
  output_dir :: PurePath
  custom_filename :: "string option"
  preferred_format :: "VideoFormat option"
  progress_hook :: "'c progress_hook"

definition YouTubeDownloader_init ::
  "string \<Rightarrow> string option \<Rightarrow> VideoFormat option \<Rightarrow> 'c option \<Rightarrow> 'c YouTubeDownloader" where
  "YouTubeDownloader_init out_dir filename fmt progress_callback =
     \<lparr>output_dir = Path out_dir,
      custom_filename = filename,
      preferred_format = (case fmt of Some f \<Rightarrow> Some f | None \<Rightarrow> Some MP4),
      progress_hook =
        (case progress_callback of
           Some c \<Rightarrow> Callback c
         | None \<Rightarrow> DefaultProgressHook DefaultProgressHook_init)\<rparr>"

definition set_progress_hook :: "'c YouTubeDownloader \<Rightarrow> 'c progress_hook \<Rightarrow> 'c YouTubeDownloader" where
  "set_progress_hook self hook = self\<lparr>progress_hook := hook\<rparr>"

text \<open>The values of the option dictionary handed to the extraction library.\<close>

type_synonym postprocessor = "(string, string) dict"

datatype 'c optval =
    VStr string
  | VBool bool
  | VHooks "'c progress_hook list"
  | VPostprocessors "postprocessor list"

type_synonym 'c ydl_opts = "(string, 'c optval) dict"

definition get_output_template ::
  "'c YouTubeDownloader \<Rightarrow> bool \<Rightarrow> (string, pyval) dict option \<Rightarrow> string" where
  "get_output_template self is_playlist video_info =
     (let base_dir = path_str (output_dir self)
      in if (case custom_filename self of Some f \<Rightarrow> f \<noteq> [] | None \<Rightarrow> False) \<and> \<not> is_playlist
         then (let name_without_ext = path_stem (Path (the (custom_filename self)))
               in base_dir @ ''/'' @ name_without_ext @ ''.%(ext)s'')
         else if is_playlist
         then base_dir @ ''/%(playlist)s/%(playlist_index)s - %(title)s.%(ext)s''
         else base_dir @ ''/%(title)s.%(ext)s'')"

definition base_formats :: "(Quality, string) dict" where
  "base_formats =
     [(BEST, ''best''),
      (HD_4K, ''bestvideo[height<=2160]+bestaudio/best[height<=2160]''),
      (HD_1080, ''bestvideo[height<=1080]+bestaudio/best[height<=1080]''),
      (HD_720, ''bestvideo[height<=720]+bestaudio/best[height<=720]'')]"

definition format_preferences :: "(Quality, string) dict" where
  "format_preferences =
     [(BEST, ''best[ext=mp4]/'' @ ''bestvideo[ext=mp4]+bestaudio[ext=m4a]/'' @ ''best''),
      (HD_4K, ''best[height<=2160][ext=mp4]/''
              @ ''bestvideo[height<=2160][ext=mp4]+bestaudio[ext=m4a]/''
              @ ''best[height<=2160]''),
      (HD_1080, ''best[height<=1080][ext=mp4]/''
                @ ''bestvideo[height<=1080][ext=mp4]+bestaudio[ext=m4a]/''
                @ ''best[height<=1080]''),
      (HD_720, ''best[height<=720][ext=mp4]/''
               @ ''bestvideo[height<=720][ext=mp4]+bestaudio[ext=m4a]/''
               @ ''best[height<=720]'')]"

definition build_format_string :: "Quality \<Rightarrow> bool \<Rightarrow> string" where
  "build_format_string quality force_convert =
     (if force_convert then dict_get base_formats quality ''best''
      else dict_get format_preferences quality ''best[ext=mp4]/best'')"

definition get_ydl_opts ::
  "'c YouTubeDownloader \<Rightarrow> Quality \<Rightarrow> bool \<Rightarrow> (string, pyval) dict option \<Rightarrow> bool \<Rightarrow> 'c ydl_opts" where
  "get_ydl_opts self quality is_playlist video_info force_convert =
     (let opts =
            [(''outtmpl'', VStr (get_output_template self is_playlist video_info)),
             (''progress_hooks'', VHooks [progress_hook self]),
             (''no_warnings'', VBool True),
             (''ignoreerrors'', VBool False),
             (''extract_flat'', VBool False),
             (''merge_output_format'', VStr ''mp4'')]
      in if quality = AUDIO_ONLY then
           dict_update_all opts
             [(''format'', VStr ''bestaudio/best''),
              (''postprocessors'',
               VPostprocessors
                 [[(''key'', ''FFmpegExtractAudio''),
                   (''preferredcodec'', ''mp3''),
                   (''preferredquality'', ''192'')]])]
         else
           (let format_string = build_format_string quality force_convert;
                opts = AList.update ''format'' (VStr format_string) opts;
                postprocessors = [];
                postprocessors =
                  (if force_convert \<and> preferred_format self \<noteq> None
                   then postprocessors
                        @ [[(''key'', ''FFmpegVideoConvertor''),
                            (''preferedformat'', VideoFormat_value (the (preferred_format self)))]]
                   else postprocessors);
                postprocessors = postprocessors @ [[(''key'', ''FFmpegMetadata'')]]
            in if postprocessors \<noteq> []
               then AList.update ''postprocessors'' (VPostprocessors postprocessors) opts
               else opts))"

text \<open>
  The format expressions that the specification names for the video tiers: the relaxed
  ones, without a filter on the container, and the chains that prefer MP4.
\<close>

definition relaxed_expression :: "Quality \<Rightarrow> string" where
  "relaxed_expression q =
     (case q of
        BEST \<Rightarrow> ''best''
      | HD_4K \<Rightarrow> ''bestvideo[height<=2160]+bestaudio/best[height<=2160]''
      | HD_1080 \<Rightarrow> ''bestvideo[height<=1080]+bestaudio/best[height<=1080]''
      | HD_720 \<Rightarrow> ''bestvideo[height<=720]+bestaudio/best[height<=720]''
      | AUDIO_ONLY \<Rightarrow> [])"

definition mp4_chain_expression :: "Quality \<Rightarrow> string" where
  "mp4_chain_expression q =
     (case q of
        BEST \<Rightarrow> ''best[ext=mp4]/bestvideo[ext=mp4]+bestaudio[ext=m4a]/best''
      | HD_4K \<Rightarrow>
          ''best[height<=2160][ext=mp4]/bestvideo[height<=2160][ext=mp4]+bestaudio[ext=m4a]/best[height<=2160]''
      | HD_1080 \<Rightarrow>
          ''best[height<=1080][ext=mp4]/bestvideo[height<=1080][ext=mp4]+bestaudio[ext=m4a]/best[height<=1080]''
      | HD_720 \<Rightarrow>
          ''best[height<=720][ext=mp4]/bestvideo[height<=720][ext=mp4]+bestaudio[ext=m4a]/best[height<=720]''
      | AUDIO_ONLY \<Rightarrow> [])"

section \<open>Exceptions\<close>

text \<open>
  The exceptions that occur in the modelled code. A handler \<^verbatim>\<open>except Exception\<close> catches
  the classes derived from \<^verbatim>\<open>Exception\<close>; \<^verbatim>\<open>KeyboardInterrupt\<close> and \<^verbatim>\<open>SystemExit\<close> derive from
  \<^verbatim>\<open>BaseException\<close> only. \<open>DownloadError\<close> stands for the errors of the extraction library,
  \<open>StreamlitAPIException\<close> is the error of the GUI library.
\<close>

datatype exn =
    KeyError string
  | TypeError
  | ValueError
  | ZeroDivisionError
  | EOFError
  | DownloadError string
  | StreamlitAPIException
  | KeyboardInterrupt
  | SystemExit

fun is_Exception :: "exn \<Rightarrow> bool" where
  "is_Exception KeyboardInterrupt = False"
| "is_Exception SystemExit = False"
| "is_Exception _ = True"

definition dict_item :: "(string, 'v) dict \<Rightarrow> string \<Rightarrow> exn + 'v" where
  \<comment> \<open>\<^verbatim>\<open>d[k]\<close>\<close>
  "dict_item d k = (case map_of d k of None \<Rightarrow> Inl (KeyError k) | Some v \<Rightarrow> Inr v)"

definition has_key :: "(string, 'v) dict \<Rightarrow> string \<Rightarrow> bool" where
  \<comment> \<open>\<^verbatim>\<open>k in d\<close>\<close>
  "has_key d k = (map_of d k \<noteq> None)"

section \<open>String operations\<close>

definition py_isspace :: "char \<Rightarrow> bool" where
  \<comment> \<open>the white space of \<^verbatim>\<open>str.strip()\<close> among the code points below 256\<close>
  "py_isspace c = (of_char c \<in> {9, 10, 11, 12, 13, 28, 29, 30, 31, 32, 133, 160 :: nat})"

definition py_strip :: "string \<Rightarrow> string" where
  "py_strip s = rev (dropWhile py_isspace (rev (dropWhile py_isspace s)))"

definition py_lower :: "string \<Rightarrow> string" where
  "py_lower s =
     map (\<lambda>c. let n = (of_char c :: nat)
               in if (65 \<le> n \<and> n \<le> 90) \<or> (192 \<le> n \<and> n \<le> 222 \<and> n \<noteq> 215)
                  then char_of (n + 32) else c) s"

definition ascii_upper :: "string \<Rightarrow> string" where
  \<comment> \<open>\<^verbatim>\<open>s.upper()\<close> for a string of ASCII characters\<close>
  "ascii_upper s =
     map (\<lambda>c. let n = (of_char c :: nat)
               in if 97 \<le> n \<and> n \<le> 122 then char_of (n - 32) else c) s"

section \<open>File names (app.py)\<close>

definition invalid_filename_chars :: "char list" where
  \<comment> \<open>the class \<^verbatim>\<open>[<>:"/\\|?*]\<close>\<close>
  "invalid_filename_chars =
     [CHR ''<'', CHR ''>'', CHR '':'', CHR 0x22, CHR ''/'', CHR 0x5C, CHR ''|'', CHR ''?'', CHR ''*'']"

definition clean_filename :: "string \<Rightarrow> string" where
  "clean_filename filename =
     (let clean_name = filter (\<lambda>c. c \<notin> set invalid_filename_chars) filename;
          clean_name = take 100 (py_strip clean_name)
      in clean_name)"

section \<open>Console and widget output\<close>

text \<open>
  What the program prints is kept as a list of messages, one per \<^verbatim>\<open>print\<close>, each holding
  the values that the printed line is formatted from. The progress line holds the stage,
  the numbers of filled and of empty cells of the bar, and the percentage.
\<close>

datatype console_msg =
    Progress_line string nat nat rat
  | Downloaded_msg string
  | Download_error_msg pyval
  | Url_not_recognized string
  | Might_still_be_valid
  | Prompt_try_anyway
  | Attempting_unverified
  | Please_enter_y_or_n
  | Failed_to_get_info exn
  | Starting_download bool
  | Will_convert string
  | Preferring_mp4
  | Title_msg pyval
  | Uploader_msg pyval
  | Duration_msg int int
  | Download_failed exn
  | Tips_header
  | Tip_quality
  | Tip_force_convert
  | Tip_region

text \<open>The calls that the GUI hook makes on its progress bar and its status text.\<close>

datatype widget_call =
    Progress_bar_progress int
  | Status_downloading rat rat rat
  | Status_completed string
  | Status_error pyval

section \<open>Arithmetic on progress events\<close>

text \<open>
  Floating-point results are rounded: \<open>rnd\<close> maps the exact result of an operation to the
  float that the machine returns. It is a parameter of every function that computes with
  floats; overflow and NaN are outside the model.
\<close>

fun numeric :: "pyval \<Rightarrow> rat option" where
  "numeric (PBool b) = Some (if b then 1 else 0)"
| "numeric (PInt n) = Some (of_int n)"
| "numeric (PFloat x) = Some x"
| "numeric _ = None"

fun is_float :: "pyval \<Rightarrow> bool" where
  "is_float (PFloat x) = True"
| "is_float _ = False"

definition to_float :: "(rat \<Rightarrow> rat) \<Rightarrow> pyval \<Rightarrow> rat" where
  "to_float rnd v = (if is_float v then the (numeric v) else rnd (the (numeric v)))"

definition py_truediv :: "(rat \<Rightarrow> rat) \<Rightarrow> pyval \<Rightarrow> pyval \<Rightarrow> exn + rat" where
  \<comment> \<open>\<^verbatim>\<open>a / b\<close>; the quotient of two integers is rounded once\<close>
  "py_truediv rnd a b =
     (case (numeric a, numeric b) of
        (Some x, Some y) \<Rightarrow>
          if y = 0 then Inl ZeroDivisionError
          else if is_float a \<or> is_float b then Inr (rnd (to_float rnd a / to_float rnd b))
          else Inr (rnd (x / y))
      | _ \<Rightarrow> Inl TypeError)"

definition py_int :: "rat \<Rightarrow> int" where
  \<comment> \<open>\<^verbatim>\<open>int(x)\<close> truncates towards zero\<close>
  "py_int x = (if 0 \<le> x then \<lfloor>x\<rfloor> else \<lceil>x\<rceil>)"

definition downloading_percent ::
  "(rat \<Rightarrow> rat) \<Rightarrow> (string, pyval) dict \<Rightarrow> string \<Rightarrow> exn + rat" where
  \<comment> \<open>\<^verbatim>\<open>(d['downloaded_bytes'] / d[total_key]) * 100\<close>\<close>
  "downloading_percent rnd d total_key =
     (case dict_item d ''downloaded_bytes'' of
        Inl e \<Rightarrow> Inl e
      | Inr a \<Rightarrow>
          (case dict_item d total_key of
             Inl e \<Rightarrow> Inl e
           | Inr b \<Rightarrow>
               (case py_truediv rnd a b of
                  Inl e \<Rightarrow> Inl e
                | Inr q \<Rightarrow> Inr (rnd (q * 100)))))"

definition event_percent :: "(rat \<Rightarrow> rat) \<Rightarrow> (string, pyval) dict \<Rightarrow> (exn + rat) option" where
  \<comment> \<open>the percentage of a progress event, from the first of the two totals it carries;
      \<open>None\<close> when it carries neither\<close>
  "event_percent rnd d =
     (if has_key d ''total_bytes'' then Some (downloading_percent rnd d ''total_bytes'')
      else if has_key d ''total_bytes_estimate''
      then Some (downloading_percent rnd d ''total_bytes_estimate'')
      else None)"

section \<open>The console progress hook\<close>

text \<open>
  \<^verbatim>\<open>DefaultProgressHook.__call__\<close> takes the event and returns the new state of the hook with
  what it printed, or the exception it raises. Every exception is raised before the
  first assignment and the first \<^verbatim>\<open>print\<close>, so a raised exception leaves the hook as it
  was and the console untouched. A string repeated a negative number of times is empty,
  hence the conversion of the two bar lengths with \<^const>\<open>nat\<close>.
\<close>

definition DefaultProgressHook_call ::
  "(rat \<Rightarrow> rat) \<Rightarrow> hook_state \<Rightarrow> (string, pyval) dict \<Rightarrow> exn + (hook_state \<times> console_msg list)" where
  "DefaultProgressHook_call rnd self d =
     (case dict_item d ''status'' of
        Inl e \<Rightarrow> Inl e
      | Inr status \<Rightarrow>
          if status = PStr ''downloading'' then
            (case event_percent rnd d of
               None \<Rightarrow> Inr (self, [])
             | Some (Inl e) \<Rightarrow> Inl e
             | Some (Inr percent) \<Rightarrow>
                 (let current_percent = py_int percent
                  in if current_percent \<noteq> last_printed_percent self \<and> current_percent mod 2 = 0
                     then
                       (let self' = self\<lparr>last_printed_percent := current_percent\<rparr>;
                            bar_length = 30;
                            filled_length = py_int (rnd (rnd (of_int bar_length * percent) / 100))
                        in Inr (self',
                                [Progress_line (current_stage self') (nat filled_length)
                                   (nat (bar_length - filled_length)) percent]))
                     else Inr (self, [])))
          else if status = PStr ''finished'' then
            (case dict_item d ''filename'' of
               Inl e \<Rightarrow> Inl e
             | Inr (PStr filename) \<Rightarrow> Inr (self, [Downloaded_msg (path_name (Path filename))])
             | Inr _ \<Rightarrow> Inl TypeError)
          else if status = PStr ''error'' then
            Inr (self, [Download_error_msg (dict_get d ''error'' (PStr ''Unknown error''))])
          else Inr (self, []))"

section \<open>The GUI progress hook (app.py)\<close>

text \<open>
  \<^verbatim>\<open>StreamlitProgressHook.__call__\<close> returns the calls it makes on its two widgets, in
  order, or the exception it raises. Its field \<open>last_percent\<close> is set by the constructor
  and never assigned again. The widgets belong to the GUI library: the progress bar
  (\<^verbatim>\<open>st.progress(0)\<close>) accepts an integer from 0 to 100 and raises \<^verbatim>\<open>StreamlitAPIException\<close> for
  any other; the status text (\<^verbatim>\<open>st.empty()\<close>) accepts every string. In each branch the call
  on the progress bar comes first, so an exception means that no widget was changed.
\<close>

definition progress_bar_progress :: "int \<Rightarrow> exn + widget_call" where
  \<comment> \<open>\<^verbatim>\<open>self.progress_bar.progress(value)\<close>\<close>
  "progress_bar_progress v =
     (if 0 \<le> v \<and> v \<le> 100 then Inr (Progress_bar_progress v) else Inl StreamlitAPIException)"

record StreamlitProgressHook =
  last_percent :: int

definition StreamlitProgressHook_init :: StreamlitProgressHook where
  "StreamlitProgressHook_init = \<lparr>last_percent = 0\<rparr>"

definition megabytes :: "(rat \<Rightarrow> rat) \<Rightarrow> (string, pyval) dict \<Rightarrow> string \<Rightarrow> exn + rat" where
  \<comment> \<open>\<^verbatim>\<open>d[key] / (1024 * 1024)\<close>\<close>
  "megabytes rnd d key =
     (case dict_item d key of
        Inl e \<Rightarrow> Inl e
      | Inr v \<Rightarrow> py_truediv rnd v (PInt (1024 * 1024)))"

definition downloading_status ::
  "(rat \<Rightarrow> rat) \<Rightarrow> (string, pyval) dict \<Rightarrow> string \<Rightarrow> exn + widget_call list" where
  "downloading_status rnd d total_key =
     (case downloading_percent rnd d total_key of
        Inl e \<Rightarrow> Inl e
      | Inr percent \<Rightarrow>
          (case megabytes rnd d ''downloaded_bytes'' of
             Inl e \<Rightarrow> Inl e
           | Inr downloaded_mb \<Rightarrow>
               (case megabytes rnd d total_key of
                  Inl e \<Rightarrow> Inl e
                | Inr total_mb \<Rightarrow>
                    (case progress_bar_progress (py_int percent) of
                       Inl e \<Rightarrow> Inl e
                     | Inr shown \<Rightarrow>
                         Inr [shown, Status_downloading percent downloaded_mb total_mb]))))"

definition StreamlitProgressHook_call ::
  "(rat \<Rightarrow> rat) \<Rightarrow> StreamlitProgressHook \<Rightarrow> (string, pyval) dict
     \<Rightarrow> exn + (StreamlitProgressHook \<times> widget_call list)" where
  "StreamlitProgressHook_call rnd self d =
     (case dict_item d ''status'' of
        Inl e \<Rightarrow> Inl e
      | Inr status \<Rightarrow>
          if status = PStr ''downloading'' then
            (if has_key d ''total_bytes'' then
               (case downloading_status rnd d ''total_bytes'' of
                  Inl e \<Rightarrow> Inl e | Inr calls \<Rightarrow> Inr (self, calls))
             else if has_key d ''total_bytes_estimate'' then
               (case downloading_status rnd d ''total_bytes_estimate'' of
                  Inl e \<Rightarrow> Inl e | Inr calls \<Rightarrow> Inr (self, calls))
             else Inr (self, []))
          else if status = PStr ''finished'' then
            (case dict_item d ''filename'' of
               Inl e \<Rightarrow> Inl e
             | Inr (PStr filename) \<Rightarrow>
                 (case progress_bar_progress 100 of
                    Inl e \<Rightarrow> Inl e
                  | Inr shown \<Rightarrow>
                      Inr (self, [shown, Status_completed (path_name (Path filename))]))
             | Inr _ \<Rightarrow> Inl TypeError)
          else if status = PStr ''error'' then
            Inr (self, [Status_error (dict_get d ''error'' (PStr ''Unknown error''))])
          else Inr (self, []))"

section \<open>URL validation and metadata\<close>

text \<open>
  The regular-expression engine and the extraction library are outside the repository;
  they are parameters. \<open>re_match pattern s\<close> says whether \<^verbatim>\<open>re.match(pattern, s, re.IGNORECASE)\<close>
  finds a match. An extractor stands for \<^verbatim>\<open>YoutubeDL(opts).extract_info(url, download=...)\<close>
  inside its \<^verbatim>\<open>with\<close> block: it returns the metadata, or \<^verbatim>\<open>None\<close>, or raises.
\<close>

definition bs :: string where
  \<comment> \<open>the backslash\<close>
  "bs = [CHR 0x5C]"

definition YOUTUBE_PATTERNS :: "string list" where
  "YOUTUBE_PATTERNS =
     [''(?:https?://)?(?:www'' @ bs @ ''.)?youtube'' @ bs @ ''.com/watch'' @ bs @ ''?v=['' @ bs @ ''w-]+'',
      ''(?:https?://)?(?:www'' @ bs @ ''.)?youtube'' @ bs @ ''.com/playlist'' @ bs @ ''?list=['' @ bs @ ''w-]+'',
      ''(?:https?://)?youtu'' @ bs @ ''.be/['' @ bs @ ''w-]+'',
      ''(?:https?://)?(?:www'' @ bs @ ''.)?youtube'' @ bs @ ''.com/c/['' @ bs @ ''w-]+'',
      ''(?:https?://)?(?:www'' @ bs @ ''.)?youtube'' @ bs @ ''.com/channel/['' @ bs @ ''w-]+'',
      ''(?:https?://)?(?:www'' @ bs @ ''.)?youtube'' @ bs @ ''.com/@['' @ bs @ ''w-]+'',
      ''(?:https?://)?(?:music'' @ bs @ ''.)?youtube'' @ bs @ ''.com/['' @ bs @ ''w/?=&-]+'',
      ''(?:https?://)?(?:m'' @ bs @ ''.)?youtube'' @ bs @ ''.com/['' @ bs @ ''w/?=&-]+'',
      ''(?:https?://)?(?:www'' @ bs @ ''.)?youtube'' @ bs @ ''.com/embed/['' @ bs @ ''w-]+'',
      ''(?:https?://)?(?:www'' @ bs @ ''.)?youtube'' @ bs @ ''.com/shorts/['' @ bs @ ''w-]+'']"

type_synonym info_dict = "(string, pyval) dict"

type_synonym extractor = "(string, pyval) dict \<Rightarrow> string \<Rightarrow> bool \<Rightarrow> exn + info_dict option"

definition matches_youtube_pattern :: "(string \<Rightarrow> string \<Rightarrow> bool) \<Rightarrow> string \<Rightarrow> bool" where
  "matches_youtube_pattern re_match url = list_ex (\<lambda>pattern. re_match pattern url) YOUTUBE_PATTERNS"

definition test_url_with_ydlp :: "extractor \<Rightarrow> string \<Rightarrow> exn + bool" where
  "test_url_with_ydlp extract_info url =
     (let opts = [(''quiet'', PBool True), (''no_warnings'', PBool True), (''extract_flat'', PBool True)]
      in case extract_info opts url False of
           Inr info \<Rightarrow> Inr (info \<noteq> None)
         | Inl e \<Rightarrow> if is_Exception e then Inr False else Inl e)"

text \<open>
  The confirmation loop reads standard input line by line. The lines that are still to
  come are a list; \<^verbatim>\<open>input\<close> raises \<^verbatim>\<open>EOFError\<close> when none is left.
\<close>

fun confirm_loop :: "string list \<Rightarrow> string \<Rightarrow> console_msg list \<times> (exn + bool \<times> string)" where
  "confirm_loop [] url = ([Prompt_try_anyway], Inl EOFError)"
| "confirm_loop (line # rest) url =
     (let choice = py_lower (py_strip line)
      in if choice \<in> set [''y'', ''yes'']
         then ([Prompt_try_anyway, Attempting_unverified], Inr (True, url))
         else if choice \<in> set [''n'', ''no'']
         then ([Prompt_try_anyway], Inr (False, url))
         else (let (out, r) = confirm_loop rest url
               in (Prompt_try_anyway # Please_enter_y_or_n # out, r)))"

text \<open>An answer that ends the confirmation loop: yes or no, in any case, white space aside.\<close>

definition is_answer :: "string \<Rightarrow> bool" where
  "is_answer line = (py_lower (py_strip line) \<in> set [''y'', ''yes'', ''n'', ''no''])"

definition validate_url ::
  "(string \<Rightarrow> string \<Rightarrow> bool) \<Rightarrow> extractor \<Rightarrow> string list \<Rightarrow> string \<Rightarrow> bool
     \<Rightarrow> console_msg list \<times> (exn + bool \<times> string)" where
  "validate_url re_match extract_info stdin url interactive =
     (let url = py_strip url
      in if matches_youtube_pattern re_match url then ([], Inr (True, url))
         else
           (case test_url_with_ydlp extract_info url of
              Inl e \<Rightarrow> ([], Inl e)
            | Inr True \<Rightarrow> ([], Inr (True, url))
            | Inr False \<Rightarrow>
                if interactive
                then (let (out, r) = confirm_loop stdin url
                      in (Url_not_recognized url # Might_still_be_valid # out, r))
                else ([], Inr (False, url))))"

definition get_video_info ::
  "extractor \<Rightarrow> string \<Rightarrow> bool \<Rightarrow> console_msg list \<times> (exn + info_dict option)" where
  "get_video_info extract_info url extract_flat =
     (let opts = [(''quiet'', PBool True), (''no_warnings'', PBool True),
                  (''extract_flat'', PBool extract_flat)]
      in case extract_info opts url False of
           Inr info \<Rightarrow> ([], Inr info)
         | Inl e \<Rightarrow>
             if is_Exception e
             then ((if \<not> extract_flat then [Failed_to_get_info e] else []), Inr None)
             else ([], Inl e))"

definition get_video_info_fast :: "extractor \<Rightarrow> string \<Rightarrow> console_msg list \<times> (exn + info_dict option)" where
  "get_video_info_fast extract_info url = get_video_info extract_info url False"

section \<open>The download\<close>

text \<open>
  An acquirer stands for \<^verbatim>\<open>with YoutubeDL(opts) as ydl: ydl.download(urls)\<close>: it completes
  (\<open>None\<close>) or raises. \<open>download\<close> returns what it printed, the acquisition calls it made,
  and its result: a boolean, or the exception that leaves it.
\<close>

type_synonym 'c acquirer = "'c ydl_opts \<Rightarrow> string list \<Rightarrow> exn option"

definition duration_line :: "pyval \<Rightarrow> exn + console_msg" where
  \<comment> \<open>\<^verbatim>\<open>mins, secs = divmod(duration, 60)\<close> and the format \<^verbatim>\<open>{mins:02d}:{secs:02d}\<close>\<close>
  "duration_line duration =
     (case duration of
        PInt n \<Rightarrow> Inr (Duration_msg (n div 60) (n mod 60))
      | PBool b \<Rightarrow> Inr (Duration_msg ((if b then 1 else 0) div 60) ((if b then 1 else 0) mod 60))
      | PFloat x \<Rightarrow> Inl ValueError
      | PStr s \<Rightarrow> Inl TypeError
      | PNone \<Rightarrow> Inl TypeError)"

definition announce ::
  "'c YouTubeDownloader \<Rightarrow> bool \<Rightarrow> info_dict option \<Rightarrow> bool \<Rightarrow> console_msg list \<times> exn option" where
  "announce self is_playlist video_info force_convert =
     (let out = [Starting_download is_playlist];
          out = out @
            (if force_convert \<and> preferred_format self \<noteq> None
             then [Will_convert (ascii_upper (VideoFormat_value (the (preferred_format self))))]
             else if preferred_format self = Some MP4 then [Preferring_mp4]
             else [])
      in if (case video_info of Some info \<Rightarrow> info \<noteq> [] | None \<Rightarrow> False) \<and> \<not> is_playlist
         then
           (let info = the video_info;
                title = dict_get info ''title'' (PStr ''Unknown'');
                duration = dict_get info ''duration'' (PInt 0);
                uploader = dict_get info ''uploader'' (PStr ''Unknown'');
                out = out @ [Title_msg title, Uploader_msg uploader]
            in if truthy duration
               then (case duration_line duration of
                       Inr line \<Rightarrow> (out @ [line], None)
                     | Inl e \<Rightarrow> (out, Some e))
               else (out, None))
         else (out, None))"

definition download_failed ::
  "bool \<Rightarrow> exn \<Rightarrow> console_msg list \<Rightarrow> ('c ydl_opts \<times> string list) list
     \<Rightarrow> console_msg list \<times> ('c ydl_opts \<times> string list) list \<times> (exn + bool)" where
  \<comment> \<open>an exception \<open>e\<close> reaches the handler \<^verbatim>\<open>except Exception as e\<close>\<close>
  "download_failed silent e out calls =
     (if is_Exception e
      then (out @ (if \<not> silent
                   then [Download_failed e, Tips_header, Tip_quality, Tip_force_convert, Tip_region]
                   else []),
            calls, Inr False)
      else (out, calls, Inl e))"

definition download ::
  "'c acquirer \<Rightarrow> 'c YouTubeDownloader \<Rightarrow> string \<Rightarrow> Quality \<Rightarrow> bool \<Rightarrow> info_dict option \<Rightarrow> bool \<Rightarrow> bool
     \<Rightarrow> console_msg list \<times> ('c ydl_opts \<times> string list) list \<times> (exn + bool)" where
  "download acquire self url quality is_playlist video_info force_convert silent =
     (let opts = get_ydl_opts self quality is_playlist video_info force_convert;
          (out, raised) =
            (if \<not> silent then announce self is_playlist video_info force_convert
             else ([], None))
      in case raised of
           Some e \<Rightarrow> download_failed silent e out []
         | None \<Rightarrow>
             (case acquire opts [url] of
                None \<Rightarrow> (out, [(opts, [url])], Inr True)
              | Some e \<Rightarrow> download_failed silent e out [(opts, [url])]))"

text \<open>Libraries used to run the functions above on concrete inputs.\<close>

definition interrupted_extractor :: extractor where
  "interrupted_extractor opts url dl = Inl KeyboardInterrupt"

definition failing_extractor :: extractor where
  "failing_extractor opts url dl = Inl (DownloadError ''Unsupported URL'')"

definition sample_extractor :: extractor where
  "sample_extractor opts url dl =
     (if dl then Inl (DownloadError ''no download expected'')
      else Inr (Some [(''title'', PStr ''Sample''), (''duration'', PInt 125)]))"

definition completing_acquirer :: "unit acquirer" where
  "completing_acquirer opts urls = None"

definition failing_acquirer :: "unit acquirer" where
  "failing_acquirer opts urls = Some (DownloadError ''Video unavailable'')"

definition interrupted_acquirer :: "unit acquirer" where
  "interrupted_acquirer opts urls = Some KeyboardInterrupt"

definition never_matching :: "string \<Rightarrow> string \<Rightarrow> bool" where
  "never_matching pattern s = False"

section \<open>Properties of the option set\<close>

text \<open>A downloader that comes from the constructor always has a preferred format.\<close>

lemma init_preferred_format:
  "preferred_format (YouTubeDownloader_init out_dir filename fmt cb) \<noteq> None"
  by (simp add: YouTubeDownloader_init_def split: option.splits)

lemma opts_audio:
  "get_ydl_opts self AUDIO_ONLY is_playlist video_info force_convert =
     [(''outtmpl'', VStr (get_output_template self is_playlist video_info)),
      (''progress_hooks'', VHooks [progress_hook self]),
      (''no_warnings'', VBool True),
      (''ignoreerrors'', VBool False),
      (''extract_flat'', VBool False),
      (''merge_output_format'', VStr ''mp4''),
      (''format'', VStr ''bestaudio/best''),
      (''postprocessors'',
         VPostprocessors
           [[(''key'', ''FFmpegExtractAudio''),
             (''preferredcodec'', ''mp3''),
             (''preferredquality'', ''192'')]])]"
  by (simp add: get_ydl_opts_def dict_update_all_def)

lemma opts_video:
  "quality \<noteq> AUDIO_ONLY \<Longrightarrow>
   get_ydl_opts self quality is_playlist video_info force_convert =
     [(''outtmpl'', VStr (get_output_template self is_playlist video_info)),
      (''progress_hooks'', VHooks [progress_hook self]),
      (''no_warnings'', VBool True),
      (''ignoreerrors'', VBool False),
      (''extract_flat'', VBool False),
      (''merge_output_format'', VStr ''mp4''),
      (''format'', VStr (build_format_string quality force_convert)),
      (''postprocessors'',
         VPostprocessors
           ((if force_convert \<and> preferred_format self \<noteq> None
             then [[(''key'', ''FFmpegVideoConvertor''),
                    (''preferedformat'', VideoFormat_value (the (preferred_format self)))]]
             else [])
            @ [[(''key'', ''FFmpegMetadata'')]]))]"
  by (simp add: get_ydl_opts_def Let_def)

lemma build_format_string_force:
  "q \<noteq> AUDIO_ONLY \<Longrightarrow> build_format_string q True = relaxed_expression q"
  by (cases q) (simp_all add: build_format_string_def dict_get_def base_formats_def relaxed_expression_def)

lemma build_format_string_default:
  "q \<noteq> AUDIO_ONLY \<Longrightarrow> build_format_string q False = mp4_chain_expression q"
  by (cases q)
    (simp_all add: build_format_string_def dict_get_def format_preferences_def
      mp4_chain_expression_def)

text \<open>
  Claim C1. Whatever the downloader holds (output directory, custom filename, preferred
  format, hook) and whatever the playlist flag, the metadata and the conversion flag are,
  the options built for \<open>AUDIO_ONLY\<close> select \<^verbatim>\<open>bestaudio/best\<close> and carry exactly one
  post-processing step: \<^verbatim>\<open>FFmpegExtractAudio\<close> with codec \<^verbatim>\<open>mp3\<close> and quality \<^verbatim>\<open>192\<close>.
\<close>

theorem audio_only_options:
  "map_of (get_ydl_opts self AUDIO_ONLY is_playlist video_info force_convert) ''format''
     = Some (VStr ''bestaudio/best'') \<and>
   map_of (get_ydl_opts self AUDIO_ONLY is_playlist video_info force_convert) ''postprocessors''
     = Some (VPostprocessors
               [[(''key'', ''FFmpegExtractAudio''),
                 (''preferredcodec'', ''mp3''),
                 (''preferredquality'', ''192'')]])"
  by (simp add: opts_audio)

theorem audio_only_options_witness:
  "map_of (get_ydl_opts (YouTubeDownloader_init ''out'' (Some ''clip.mkv'') (Some MKV) (None :: unit option))
             AUDIO_ONLY False None True) ''format''
     = Some (VStr ''bestaudio/best'')"
  using audio_only_options
    [of "YouTubeDownloader_init ''out'' (Some ''clip.mkv'') (Some MKV) (None :: unit option)"
        False None True]
  by simp

text \<open>
  Claim C2. For a video tier, with conversion forced and a preferred format \<open>f\<close> set, the
  format expression is the relaxed one of the tier and the post-processors are the
  convertor to \<open>f\<close> followed by the metadata step; without forced conversion the format
  expression is the tier's chain that prefers MP4 and the metadata step is the only
  post-processor.
\<close>

theorem video_tier_options:
  assumes "q \<noteq> AUDIO_ONLY"
  shows
    "(force_convert \<and> preferred_format self = Some f \<longrightarrow>
        map_of (get_ydl_opts self q is_playlist video_info force_convert) ''format''
          = Some (VStr (relaxed_expression q)) \<and>
        map_of (get_ydl_opts self q is_playlist video_info force_convert) ''postprocessors''
          = Some (VPostprocessors
                    [[(''key'', ''FFmpegVideoConvertor''),
                      (''preferedformat'', VideoFormat_value f)],
                     [(''key'', ''FFmpegMetadata'')]])) \<and>
     (\<not> force_convert \<longrightarrow>
        map_of (get_ydl_opts self q is_playlist video_info force_convert) ''format''
          = Some (VStr (mp4_chain_expression q)) \<and>
        map_of (get_ydl_opts self q is_playlist video_info force_convert) ''postprocessors''
          = Some (VPostprocessors [[(''key'', ''FFmpegMetadata'')]]))"
proof (cases force_convert)
  case True
  then show ?thesis
    using assms by (simp add: opts_video build_format_string_force)
next
  case False
  then show ?thesis
    using assms by (simp add: opts_video build_format_string_default)
qed

theorem video_tier_options_witness:
  "HD_720 \<noteq> AUDIO_ONLY \<and> BEST \<noteq> AUDIO_ONLY \<and>
   preferred_format (YouTubeDownloader_init ''.'' None (Some WEBM) (None :: unit option)) = Some WEBM \<and>
   map_of (get_ydl_opts (YouTubeDownloader_init ''.'' None (Some WEBM) (None :: unit option))
             HD_720 False None True) ''format''
     = Some (VStr ''bestvideo[height<=720]+bestaudio/best[height<=720]'') \<and>
   map_of (get_ydl_opts (YouTubeDownloader_init ''.'' None (Some WEBM) (None :: unit option))
             HD_720 False None True) ''postprocessors''
     = Some (VPostprocessors
               [[(''key'', ''FFmpegVideoConvertor''), (''preferedformat'', ''webm'')],
                [(''key'', ''FFmpegMetadata'')]]) \<and>
   map_of (get_ydl_opts (YouTubeDownloader_init ''.'' None (Some WEBM) (None :: unit option))
             BEST False None False) ''format''
     = Some (VStr ''best[ext=mp4]/bestvideo[ext=mp4]+bestaudio[ext=m4a]/best'') \<and>
   map_of (get_ydl_opts (YouTubeDownloader_init ''.'' None (Some WEBM) (None :: unit option))
             BEST False None False) ''postprocessors''
     = Some (VPostprocessors [[(''key'', ''FFmpegMetadata'')]])"
proof -
  let ?s = "YouTubeDownloader_init ''.'' None (Some WEBM) (None :: unit option)"
  have a: "HD_720 \<noteq> AUDIO_ONLY" and b: "BEST \<noteq> AUDIO_ONLY" by simp_all
  have c: "preferred_format ?s = Some WEBM" by (simp add: YouTubeDownloader_init_def)
  show ?thesis
    using a b c video_tier_options [OF a, of True ?s WEBM False None]
      video_tier_options [OF b, of False ?s WEBM False None]
    by (simp add: relaxed_expression_def mp4_chain_expression_def)
qed

text \<open>
  Claim C8. For every tier and every preferred format the options set
  \<^verbatim>\<open>merge_output_format\<close> to \<^verbatim>\<open>mp4\<close>, \<^verbatim>\<open>no_warnings\<close> to true, \<^verbatim>\<open>ignoreerrors\<close> to false, and
  hold exactly one progress hook, the downloader's own.
\<close>

theorem fixed_options:
  "map_of (get_ydl_opts self quality is_playlist video_info force_convert) ''merge_output_format''
     = Some (VStr ''mp4'') \<and>
   map_of (get_ydl_opts self quality is_playlist video_info force_convert) ''no_warnings''
     = Some (VBool True) \<and>
   map_of (get_ydl_opts self quality is_playlist video_info force_convert) ''ignoreerrors''
     = Some (VBool False) \<and>
   map_of (get_ydl_opts self quality is_playlist video_info force_convert) ''progress_hooks''
     = Some (VHooks [progress_hook self])"
proof (cases "quality = AUDIO_ONLY")
  case True
  then show ?thesis by (simp add: opts_audio)
next
  case False
  then show ?thesis by (simp add: opts_video)
qed

theorem fixed_options_witness:
  "map_of (get_ydl_opts (YouTubeDownloader_init ''.'' None (Some AVI) (Some ()))
             HD_1080 True None True) ''merge_output_format''
     = Some (VStr ''mp4'') \<and>
   map_of (get_ydl_opts (YouTubeDownloader_init ''.'' None (Some AVI) (Some ()))
             HD_1080 True None True) ''progress_hooks''
     = Some (VHooks [Callback ()])"
  using fixed_options [of "YouTubeDownloader_init ''.'' None (Some AVI) (Some ())" HD_1080 True None True]
  by (simp add: YouTubeDownloader_init_def)

section \<open>Properties of the output template\<close>

lemma split_sep_none: "c \<notin> set s \<Longrightarrow> split_sep c s = [s]"
  by (induction s) auto

lemma rfind_none: "c \<notin> set ys \<Longrightarrow> rfind c ys = None"
  by (induction ys) auto

lemma rfind_last: "c \<notin> set ys \<Longrightarrow> rfind c (xs @ c # ys) = Some (length xs)"
  by (induction xs) (simp_all add: rfind_none)

lemma stem_simple:
  assumes "n \<noteq> []" "CHR ''/'' \<notin> set n" "e \<noteq> []" "CHR ''/'' \<notin> set e" "CHR ''.'' \<notin> set e"
  shows "path_stem (Path (n @ ''.'' @ e)) = n"
proof -
  define f where "f = n @ ''.'' @ e"
  have nosep: "CHR ''/'' \<notin> set f" using assms by (simp add: f_def)
  have root: "splitroot f = ([], f)"
    using assms(1,2) by (cases n) (auto simp: splitroot_def f_def)
  have keep: "f \<noteq> []" "f \<noteq> ''.''"
    using assms(1) by (cases n; simp add: f_def)+
  have parts: "path_parts (Path f) = [f]"
    using keep by (simp add: Path_def root split_sep_none [OF nosep])
  have name: "path_name (Path f) = f" by (simp add: path_name_def parts)
  have idx: "rfind CHR ''.'' f = Some (length n)"
    using rfind_last [of "CHR ''.''" e n] assms(5) by (simp add: f_def)
  have "path_stem (Path f) = take (length n) f"
    using assms(1,3) by (simp add: path_stem_def name idx) (simp add: f_def)
  then show ?thesis by (simp add: f_def)
qed

text \<open>
  Claim C3, as amended. With \<open>d\<close> the string form of the stored output directory, the
  template is \<open>d/<stem of f>.%(ext)s\<close> when a non-empty custom filename \<open>f\<close> is set and the
  download is not a playlist; it is the playlist template whenever the playlist flag is
  set; and it is \<open>d/%(title)s.%(ext)s\<close> otherwise, which includes an empty custom filename.
\<close>

theorem output_template_cases:
  "(custom_filename self = Some f \<and> f \<noteq> [] \<and> \<not> is_playlist \<longrightarrow>
      get_output_template self is_playlist video_info
        = path_str (output_dir self) @ ''/'' @ path_stem (Path f) @ ''.%(ext)s'') \<and>
   (is_playlist \<longrightarrow>
      get_output_template self is_playlist video_info
        = path_str (output_dir self) @ ''/%(playlist)s/%(playlist_index)s - %(title)s.%(ext)s'') \<and>
   ((custom_filename self = None \<or> custom_filename self = Some []) \<and> \<not> is_playlist \<longrightarrow>
      get_output_template self is_playlist video_info
        = path_str (output_dir self) @ ''/%(title)s.%(ext)s'')"
  by (auto simp: get_output_template_def Let_def)

theorem output_template_cases_witness:
  "get_output_template (YouTubeDownloader_init ''videos/'' (Some ''my clip.final.mp4'') None (None :: unit option))
     False None = ''videos/my clip.final.%(ext)s'' \<and>
   get_output_template (YouTubeDownloader_init ''videos/'' (Some ''my clip.final.mp4'') None (None :: unit option))
     True None = ''videos/%(playlist)s/%(playlist_index)s - %(title)s.%(ext)s'' \<and>
   get_output_template (YouTubeDownloader_init ''videos/'' None None (None :: unit option))
     False None = ''videos/%(title)s.%(ext)s''"
proof -
  let ?s = "YouTubeDownloader_init ''videos/'' (Some ''my clip.final.mp4'') None (None :: unit option)"
  let ?t = "YouTubeDownloader_init ''videos/'' None None (None :: unit option)"
  have d: "path_str (Path ''videos/'') = ''videos''"
    by (simp add: Path_def splitroot_def path_str_def)
  have st: "path_stem (Path ''my clip.final.mp4'') = ''my clip.final''"
    by (simp add: Path_def splitroot_def path_stem_def path_name_def)
  have 1: "custom_filename ?s = Some ''my clip.final.mp4'' \<and> ''my clip.final.mp4'' \<noteq> [] \<and> \<not> False"
    by (simp add: YouTubeDownloader_init_def)
  have 2: "(custom_filename ?t = None \<or> custom_filename ?t = Some []) \<and> \<not> False"
    by (simp add: YouTubeDownloader_init_def)
  have o: "output_dir ?s = Path ''videos/''" "output_dir ?t = Path ''videos/''"
    by (simp_all add: YouTubeDownloader_init_def)
  show ?thesis
    using output_template_cases [of ?s "''my clip.final.mp4''" False None]
      output_template_cases [of ?s "''my clip.final.mp4''" True None]
      output_template_cases [of ?t "[]" False None] 1 2
    by (simp add: o d st)
qed

text \<open>
  An empty custom filename is set, the playlist flag is off, and the template is the one
  built from the title, not \<open>d/<stem of f>.%(ext)s\<close>.
\<close>

theorem output_template_empty_filename:
  "custom_filename (YouTubeDownloader_init ''videos'' (Some []) None (None :: unit option)) = Some [] \<and>
   get_output_template (YouTubeDownloader_init ''videos'' (Some []) None (None :: unit option)) False None
     = ''videos/%(title)s.%(ext)s'' \<and>
   get_output_template (YouTubeDownloader_init ''videos'' (Some []) None (None :: unit option)) False None
     \<noteq> path_str (output_dir (YouTubeDownloader_init ''videos'' (Some []) None (None :: unit option)))
        @ ''/'' @ path_stem (Path []) @ ''.%(ext)s''"
  by (simp add: get_output_template_def YouTubeDownloader_init_def Path_def splitroot_def
      path_str_def path_stem_def path_name_def)

section \<open>Properties of file-name cleaning\<close>

text \<open>
  What \<open>clean_filename\<close> does guarantee: none of the nine removed characters remains,
  the result has at most 100 characters, and it does not start with white space.
\<close>

lemma set_py_strip: "set (py_strip s) \<subseteq> set s"
proof -
  have "set (py_strip s) \<subseteq> set (dropWhile py_isspace s)"
    unfolding py_strip_def using set_dropWhileD [of _ py_isspace "rev (dropWhile py_isspace s)"]
    by auto
  also have "\<dots> \<subseteq> set s" using set_dropWhileD [of _ py_isspace s] by auto
  finally show ?thesis .
qed

lemma py_strip_hd: "py_strip s \<noteq> [] \<Longrightarrow> \<not> py_isspace (hd (py_strip s))"
proof -
  assume ne: "py_strip s \<noteq> []"
  define ys where "ys = dropWhile py_isspace s"
  have st: "py_strip s = rev (dropWhile py_isspace (rev ys))"
    by (simp add: py_strip_def ys_def)
  have ys_ne: "ys \<noteq> []" using ne st by auto
  then obtain y ys' where ys: "ys = y # ys'" by (cases ys) auto
  have ny: "\<not> py_isspace y" using ys unfolding ys_def by (simp add: dropWhile_eq_Cons_conv)
  have "dropWhile py_isspace (rev ys) = dropWhile py_isspace (rev ys') @ [y]"
    using ny by (simp add: ys dropWhile_append)
  then have "py_strip s = y # rev (dropWhile py_isspace (rev ys'))"
    by (simp add: st)
  then show ?thesis using ny by simp
qed

lemma clean_filename_safe:
  "set (clean_filename s) \<inter> set invalid_filename_chars = {} \<and>
   length (clean_filename s) \<le> 100 \<and>
   (clean_filename s \<noteq> [] \<longrightarrow> \<not> py_isspace (hd (clean_filename s)))"
proof -
  let ?c = "filter (\<lambda>c. c \<notin> set invalid_filename_chars) s"
  have cf: "clean_filename s = take 100 (py_strip ?c)" by (simp add: clean_filename_def)
  have "set (clean_filename s) \<subseteq> set ?c"
    unfolding cf using set_take_subset [of 100 "py_strip ?c"] set_py_strip [of ?c] by blast
  then have a: "set (clean_filename s) \<inter> set invalid_filename_chars = {}" by auto
  have b: "length (clean_filename s) \<le> 100" by (simp add: cf)
  have c: "clean_filename s \<noteq> [] \<longrightarrow> \<not> py_isspace (hd (clean_filename s))"
  proof
    assume "clean_filename s \<noteq> []"
    then have ne: "py_strip ?c \<noteq> []" by (auto simp: cf)
    then have "hd (clean_filename s) = hd (py_strip ?c)" by (simp add: cf hd_take)
    then show "\<not> py_isspace (hd (clean_filename s))" using py_strip_hd [OF ne] by simp
  qed
  show ?thesis using a b c by blast
qed

text \<open>
  Claim C10. The result of \<open>clean_filename\<close> should have no trailing white space. The name
  is stripped before it is cut to 100 characters, so a space at position 100 of the
  stripped name ends the result: for 99 letters followed by \<open>" b"\<close> the result is the
  99 letters followed by a space.
\<close>

theorem clean_filename_trailing_space:
  "clean_filename (replicate 99 CHR ''a'' @ '' b'') = replicate 99 CHR ''a'' @ '' '' \<and>
   py_isspace (last (clean_filename (replicate 99 CHR ''a'' @ '' b'')))"
  by code_simp

section \<open>Properties of the progress hooks\<close>

text \<open>
  The percentage of an event is computed when the byte count and the total are both
  numbers and the total is not zero.
\<close>

lemma downloading_percent_defined:
  assumes "dict_item d ''downloaded_bytes'' = Inr a" "dict_item d k = Inr b"
    and "numeric a = Some x" "numeric b = Some y" "y \<noteq> 0"
  shows "\<exists>p. downloading_percent rnd d k = Inr p"
  using assms by (simp add: downloading_percent_def py_truediv_def)

lemma status_downloading:
  "dict_item d ''status'' = Inr (PStr ''downloading'') \<Longrightarrow>
   DefaultProgressHook_call rnd self d =
     (case event_percent rnd d of
        None \<Rightarrow> Inr (self, [])
      | Some (Inl e) \<Rightarrow> Inl e
      | Some (Inr percent) \<Rightarrow>
          if py_int percent \<noteq> last_printed_percent self \<and> py_int percent mod 2 = 0
          then Inr (self\<lparr>last_printed_percent := py_int percent\<rparr>,
                    [Progress_line (current_stage self)
                       (nat (py_int (rnd (rnd (30 * percent) / 100))))
                       (nat (30 - py_int (rnd (rnd (30 * percent) / 100)))) percent])
          else Inr (self, []))"
  by (simp add: DefaultProgressHook_call_def Let_def split: option.splits sum.splits)

text \<open>
  What the console hook does on a \<open>downloading\<close> event whenever it returns. It prints only
  when the event carries one of the two totals and the integer percentage is even and
  differs from the last printed one; it then prints one line and stores that percentage.
  When the event carries neither total, or when the percentage is computed and is odd or
  equal to the last printed one, the hook returns, prints nothing and is unchanged.
\<close>

theorem downloading_event_frame:
  assumes "dict_item d ''status'' = Inr (PStr ''downloading'')"
  shows
    "(event_percent rnd d = None \<longrightarrow> DefaultProgressHook_call rnd self d = Inr (self, [])) \<and>
     (\<forall>p. event_percent rnd d = Some (Inr p) \<longrightarrow>
        (if even (py_int p) \<and> py_int p \<noteq> last_printed_percent self
         then DefaultProgressHook_call rnd self d =
                Inr (self\<lparr>last_printed_percent := py_int p\<rparr>,
                     [Progress_line (current_stage self)
                        (nat (py_int (rnd (rnd (30 * p) / 100))))
                        (nat (30 - py_int (rnd (rnd (30 * p) / 100)))) p])
         else DefaultProgressHook_call rnd self d = Inr (self, []))) \<and>
     (\<forall>self' out. DefaultProgressHook_call rnd self d = Inr (self', out) \<and> out \<noteq> [] \<longrightarrow>
        (has_key d ''total_bytes'' \<or> has_key d ''total_bytes_estimate'') \<and>
        (\<exists>p. event_percent rnd d = Some (Inr p) \<and> even (py_int p) \<and>
             py_int p \<noteq> last_printed_percent self))"
proof (intro conjI allI impI)
  assume "event_percent rnd d = None"
  then show "DefaultProgressHook_call rnd self d = Inr (self, [])"
    by (simp add: status_downloading [OF assms])
next
  fix p
  assume "event_percent rnd d = Some (Inr p)"
  then show "if even (py_int p) \<and> py_int p \<noteq> last_printed_percent self
         then DefaultProgressHook_call rnd self d =
                Inr (self\<lparr>last_printed_percent := py_int p\<rparr>,
                     [Progress_line (current_stage self)
                        (nat (py_int (rnd (rnd (30 * p) / 100))))
                        (nat (30 - py_int (rnd (rnd (30 * p) / 100)))) p])
         else DefaultProgressHook_call rnd self d = Inr (self, [])"
    by (simp add: status_downloading [OF assms] even_iff_mod_2_eq_zero)
next
  fix self' out
  assume a: "DefaultProgressHook_call rnd self d = Inr (self', out) \<and> out \<noteq> []"
  then show "has_key d ''total_bytes'' \<or> has_key d ''total_bytes_estimate''"
    by (auto simp: status_downloading [OF assms] event_percent_def split: if_splits)
  from a show "\<exists>p. event_percent rnd d = Some (Inr p) \<and> even (py_int p) \<and>
             py_int p \<noteq> last_printed_percent self"
    by (auto simp: status_downloading [OF assms] even_iff_mod_2_eq_zero
        split: option.splits sum.splits if_splits)
qed

theorem downloading_event_frame_witness:
  "dict_item [(''status'', PStr ''downloading''), (''downloaded_bytes'', PInt 50),
              (''total_bytes'', PInt 100)] ''status'' = Inr (PStr ''downloading'') \<and>
   event_percent id [(''status'', PStr ''downloading''), (''downloaded_bytes'', PInt 50),
                     (''total_bytes'', PInt 100)] = Some (Inr 50) \<and>
   DefaultProgressHook_call id DefaultProgressHook_init
     [(''status'', PStr ''downloading''), (''downloaded_bytes'', PInt 50), (''total_bytes'', PInt 100)]
     = Inr (\<lparr>last_printed_percent = 50, current_stage = ''Downloading''\<rparr>,
            [Progress_line ''Downloading'' 15 15 50]) \<and>
   event_percent id [(''status'', PStr ''downloading''), (''downloaded_bytes'', PInt 50)] = None \<and>
   DefaultProgressHook_call id DefaultProgressHook_init
     [(''status'', PStr ''downloading''), (''downloaded_bytes'', PInt 50)]
     = Inr (DefaultProgressHook_init, [])"
proof -
  let ?d = "[(''status'', PStr ''downloading''), (''downloaded_bytes'', PInt 50),
             (''total_bytes'', PInt 100)]"
  let ?e = "[(''status'', PStr ''downloading''), (''downloaded_bytes'', PInt 50)]"
  have s: "dict_item ?d ''status'' = Inr (PStr ''downloading'')"
    and t: "dict_item ?e ''status'' = Inr (PStr ''downloading'')"
    by (simp_all add: dict_item_def)
  have p: "event_percent id ?d = Some (Inr 50)"
    by (simp add: event_percent_def has_key_def downloading_percent_def dict_item_def
        py_truediv_def)
  have q: "event_percent id ?e = None"
    by (simp add: event_percent_def has_key_def)
  have i: "py_int 50 = 50" "py_int 15 = 15" by (simp_all add: py_int_def)
  show ?thesis
    using s p q downloading_event_frame [OF s, of id DefaultProgressHook_init]
      downloading_event_frame [OF t, of id DefaultProgressHook_init]
    by (simp add: i DefaultProgressHook_init_def)
qed

text \<open>
  Claim C9. In every \<open>downloading\<close> case other than the printing one the hook is to return
  with nothing printed and its two fields unchanged. It does so for an event that
  carries neither total, which it skips. An event that carries \<open>total_bytes\<close> with the
  value \<^verbatim>\<open>None\<close>, or a total of zero, is not skipped: the guard tests the presence of the
  key only, the division fails, and the hook raises instead of returning.
\<close>

theorem downloading_event_raises:
  "dict_item [(''status'', PStr ''downloading''), (''downloaded_bytes'', PInt 1024),
              (''total_bytes'', PNone)] ''status'' = Inr (PStr ''downloading'') \<and>
   DefaultProgressHook_call id DefaultProgressHook_init
     [(''status'', PStr ''downloading''), (''downloaded_bytes'', PInt 1024), (''total_bytes'', PNone)]
     = Inl TypeError \<and>
   DefaultProgressHook_call id DefaultProgressHook_init
     [(''status'', PStr ''downloading''), (''downloaded_bytes'', PInt 0), (''total_bytes'', PInt 0)]
     = Inl ZeroDivisionError \<and>
   DefaultProgressHook_call id DefaultProgressHook_init
     [(''status'', PStr ''downloading''), (''downloaded_bytes'', PInt 1024)]
     = Inr (DefaultProgressHook_init, [])"
  by (simp add: DefaultProgressHook_call_def dict_item_def event_percent_def has_key_def
      downloading_percent_def py_truediv_def)

lemma py_truediv_megabyte:
  "numeric u = Some x \<Longrightarrow> \<exists>a. py_truediv rnd u (PInt (1024 * 1024)) = Inr a"
  by (simp add: py_truediv_def)

lemma downloading_status_ok:
  assumes "downloading_percent rnd d k = Inr p" and "0 \<le> py_int p" and "py_int p \<le> 100"
  shows "\<exists>a b. downloading_status rnd d k
           = Inr [Progress_bar_progress (py_int p), Status_downloading p a b]"
proof -
  from assms(1) obtain u v q where
    u: "dict_item d ''downloaded_bytes'' = Inr u" and v: "dict_item d k = Inr v"
    and q: "py_truediv rnd u v = Inr q"
    by (auto simp: downloading_percent_def split: sum.splits)
  from q obtain x y where "numeric u = Some x" "numeric v = Some y"
    by (auto simp: py_truediv_def split: option.splits)
  then obtain a b where "py_truediv rnd u (PInt (1024 * 1024)) = Inr a"
    "py_truediv rnd v (PInt (1024 * 1024)) = Inr b"
    using py_truediv_megabyte [of u x rnd] py_truediv_megabyte [of v y rnd] by blast
  then show ?thesis
    using assms u v by (simp add: downloading_status_def megabytes_def progress_bar_progress_def)
qed

text \<open>
  Outside the range of the progress bar the GUI hook raises, and no widget is changed.
\<close>

lemma downloading_status_out_of_range:
  assumes "downloading_percent rnd d k = Inr p" and "py_int p < 0 \<or> 100 < py_int p"
  shows "downloading_status rnd d k = Inl StreamlitAPIException"
proof -
  from assms(1) obtain u v q where
    u: "dict_item d ''downloaded_bytes'' = Inr u" and v: "dict_item d k = Inr v"
    and q: "py_truediv rnd u v = Inr q"
    by (auto simp: downloading_percent_def split: sum.splits)
  from q obtain x y where "numeric u = Some x" "numeric v = Some y"
    by (auto simp: py_truediv_def split: option.splits)
  then obtain a b where "py_truediv rnd u (PInt (1024 * 1024)) = Inr a"
    "py_truediv rnd v (PInt (1024 * 1024)) = Inr b"
    using py_truediv_megabyte [of u x rnd] py_truediv_megabyte [of v y rnd] by blast
  then show ?thesis
    using assms u v
    by (auto simp: downloading_status_def megabytes_def progress_bar_progress_def)
qed

text \<open>
  Claim C7, as amended. The two sinks tell three kinds of event apart by the status:
  \<open>downloading\<close>, \<open>finished\<close> and \<open>error\<close>. A finished event with a file name and an error
  event are always rendered by both. A downloading event whose percentage is computed is
  rendered by the GUI hook when the integer percentage lies between 0 and 100, and by the
  console hook exactly when the integer percentage is even and differs from the last
  printed one. An event with any other status is rendered by neither, and leaves both
  hooks unchanged.
\<close>

theorem progress_sinks_render:
  "(dict_item d ''status'' = Inr (PStr ''finished'') \<and> dict_item d ''filename'' = Inr (PStr f) \<longrightarrow>
      DefaultProgressHook_call rnd h d = Inr (h, [Downloaded_msg (path_name (Path f))]) \<and>
      StreamlitProgressHook_call rnd g d
        = Inr (g, [Progress_bar_progress 100, Status_completed (path_name (Path f))])) \<and>
   (dict_item d ''status'' = Inr (PStr ''error'') \<longrightarrow>
      DefaultProgressHook_call rnd h d
        = Inr (h, [Download_error_msg (dict_get d ''error'' (PStr ''Unknown error''))]) \<and>
      StreamlitProgressHook_call rnd g d
        = Inr (g, [Status_error (dict_get d ''error'' (PStr ''Unknown error''))])) \<and>
   (dict_item d ''status'' = Inr (PStr ''downloading'') \<and> event_percent rnd d = Some (Inr p) \<longrightarrow>
      (0 \<le> py_int p \<and> py_int p \<le> 100 \<longrightarrow>
         (\<exists>a b. StreamlitProgressHook_call rnd g d
                  = Inr (g, [Progress_bar_progress (py_int p), Status_downloading p a b]))) \<and>
      (\<exists>h' out. DefaultProgressHook_call rnd h d = Inr (h', out) \<and>
                 (out \<noteq> [] \<longleftrightarrow> even (py_int p) \<and> py_int p \<noteq> last_printed_percent h))) \<and>
   (dict_item d ''status'' = Inr v \<and> v \<noteq> PStr ''downloading'' \<and> v \<noteq> PStr ''finished'' \<and>
    v \<noteq> PStr ''error'' \<longrightarrow>
      DefaultProgressHook_call rnd h d = Inr (h, []) \<and>
      StreamlitProgressHook_call rnd g d = Inr (g, []))"
proof (intro conjI impI)
  assume a: "dict_item d ''status'' = Inr (PStr ''downloading'') \<and> event_percent rnd d = Some (Inr p)"
  from a show "\<exists>h' out. DefaultProgressHook_call rnd h d = Inr (h', out) \<and>
                 (out \<noteq> [] \<longleftrightarrow> even (py_int p) \<and> py_int p \<noteq> last_printed_percent h)"
    by (auto simp: status_downloading even_iff_mod_2_eq_zero)
  assume r: "0 \<le> py_int p \<and> py_int p \<le> 100"
  show "\<exists>a b. StreamlitProgressHook_call rnd g d
                = Inr (g, [Progress_bar_progress (py_int p), Status_downloading p a b])"
  proof (cases "has_key d ''total_bytes''")
    case True
    with a have "downloading_percent rnd d ''total_bytes'' = Inr p"
      by (simp add: event_percent_def)
    from downloading_status_ok [OF this] r show ?thesis
      using a True by (auto simp: StreamlitProgressHook_call_def)
  next
    case False
    with a have k: "has_key d ''total_bytes_estimate''"
      and "downloading_percent rnd d ''total_bytes_estimate'' = Inr p"
      by (auto simp: event_percent_def split: if_splits)
    from downloading_status_ok [OF this(2)] r show ?thesis
      using a False k by (auto simp: StreamlitProgressHook_call_def)
  qed
qed (auto simp: DefaultProgressHook_call_def StreamlitProgressHook_call_def
      progress_bar_progress_def)

theorem progress_sinks_render_witness:
  "DefaultProgressHook_call id DefaultProgressHook_init
     [(''status'', PStr ''finished''), (''filename'', PStr ''/tmp/out/a.mp4'')]
     = Inr (DefaultProgressHook_init, [Downloaded_msg ''a.mp4'']) \<and>
   StreamlitProgressHook_call id StreamlitProgressHook_init
     [(''status'', PStr ''finished''), (''filename'', PStr ''/tmp/out/a.mp4'')]
     = Inr (StreamlitProgressHook_init, [Progress_bar_progress 100, Status_completed ''a.mp4'']) \<and>
   DefaultProgressHook_call id DefaultProgressHook_init [(''status'', PStr ''error'')]
     = Inr (DefaultProgressHook_init, [Download_error_msg (PStr ''Unknown error'')]) \<and>
   StreamlitProgressHook_call id StreamlitProgressHook_init [(''status'', PStr ''error'')]
     = Inr (StreamlitProgressHook_init, [Status_error (PStr ''Unknown error'')]) \<and>
   (\<exists>a b. StreamlitProgressHook_call id StreamlitProgressHook_init
            [(''status'', PStr ''downloading''), (''downloaded_bytes'', PInt 1),
             (''total_bytes'', PInt 4)]
            = Inr (StreamlitProgressHook_init,
                   [Progress_bar_progress 25, Status_downloading 25 a b])) \<and>
   DefaultProgressHook_call id DefaultProgressHook_init [(''status'', PStr ''postprocessing'')]
     = Inr (DefaultProgressHook_init, [])"
proof -
  let ?f = "[(''status'', PStr ''finished''), (''filename'', PStr ''/tmp/out/a.mp4'')]"
  let ?e = "[(''status'', PStr ''error'')]"
  let ?d = "[(''status'', PStr ''downloading''), (''downloaded_bytes'', PInt 1),
             (''total_bytes'', PInt 4)]"
  let ?o = "[(''status'', PStr ''postprocessing'')]"
  have f: "dict_item ?f ''status'' = Inr (PStr ''finished'') \<and>
           dict_item ?f ''filename'' = Inr (PStr ''/tmp/out/a.mp4'')"
    by (simp add: dict_item_def)
  have n: "path_name (Path ''/tmp/out/a.mp4'') = ''a.mp4''"
    by (simp add: Path_def splitroot_def path_name_def)
  have e: "dict_item ?e ''status'' = Inr (PStr ''error'')"
    and g: "dict_get ?e ''error'' (PStr ''Unknown error'') = PStr ''Unknown error''"
    by (simp_all add: dict_item_def dict_get_def)
  have d: "dict_item ?d ''status'' = Inr (PStr ''downloading'') \<and>
           event_percent id ?d = Some (Inr 25)"
    by (simp add: dict_item_def event_percent_def has_key_def downloading_percent_def
        py_truediv_def)
  have i: "py_int 25 = 25" by (simp add: py_int_def)
  have o: "dict_item ?o ''status'' = Inr (PStr ''postprocessing'') \<and>
           PStr ''postprocessing'' \<noteq> PStr ''downloading'' \<and>
           PStr ''postprocessing'' \<noteq> PStr ''finished'' \<and>
           PStr ''postprocessing'' \<noteq> PStr ''error''"
    by (simp add: dict_item_def)
  note t = progress_sinks_render [of _ _ id DefaultProgressHook_init StreamlitProgressHook_init]
  have 1: "DefaultProgressHook_call id DefaultProgressHook_init ?f
             = Inr (DefaultProgressHook_init, [Downloaded_msg ''a.mp4''])"
    and 2: "StreamlitProgressHook_call id StreamlitProgressHook_init ?f
             = Inr (StreamlitProgressHook_init,
                    [Progress_bar_progress 100, Status_completed ''a.mp4''])"
    using t [of ?f "''/tmp/out/a.mp4''"] f n by simp_all
  have 3: "DefaultProgressHook_call id DefaultProgressHook_init ?e
             = Inr (DefaultProgressHook_init, [Download_error_msg (PStr ''Unknown error'')])"
    and 4: "StreamlitProgressHook_call id StreamlitProgressHook_init ?e
             = Inr (StreamlitProgressHook_init, [Status_error (PStr ''Unknown error'')])"
    using t [of ?e] e g by simp_all
  have 5: "\<exists>a b. StreamlitProgressHook_call id StreamlitProgressHook_init ?d
             = Inr (StreamlitProgressHook_init,
                    [Progress_bar_progress 25, Status_downloading 25 a b])"
    using t [of ?d _ 25] d i by simp
  have 6: "DefaultProgressHook_call id DefaultProgressHook_init ?o
             = Inr (DefaultProgressHook_init, [])"
    using t [of ?o _ _ "PStr ''postprocessing''"] o by simp
  show ?thesis using 1 2 3 4 5 6 by blast
qed

text \<open>
  Three events that are not rendered. A downloading event at 25 percent is not printed by
  the console hook, whose percentage must be even. A downloading event whose byte count
  exceeds the estimated total (150 percent) makes the GUI hook raise on the progress bar,
  before the status text is set. A \<open>started\<close> event, for which neither hook has a branch,
  is ignored by both.
\<close>

theorem progress_events_not_rendered:
  "DefaultProgressHook_call id DefaultProgressHook_init
     [(''status'', PStr ''downloading''), (''downloaded_bytes'', PInt 1), (''total_bytes'', PInt 4)]
     = Inr (DefaultProgressHook_init, []) \<and>
   StreamlitProgressHook_call id StreamlitProgressHook_init
     [(''status'', PStr ''downloading''), (''downloaded_bytes'', PInt 6),
      (''total_bytes_estimate'', PInt 4)]
     = Inl StreamlitAPIException \<and>
   DefaultProgressHook_call id DefaultProgressHook_init [(''status'', PStr ''started'')]
     = Inr (DefaultProgressHook_init, []) \<and>
   StreamlitProgressHook_call id StreamlitProgressHook_init [(''status'', PStr ''started'')]
     = Inr (StreamlitProgressHook_init, [])"
  by (simp add: DefaultProgressHook_call_def StreamlitProgressHook_call_def dict_item_def
      event_percent_def has_key_def downloading_percent_def downloading_status_def
      megabytes_def py_truediv_def py_int_def progress_bar_progress_def
      DefaultProgressHook_init_def)

section \<open>Properties of URL validation and of the metadata query\<close>

lemma confirm_loop_url: "snd (confirm_loop stdin url) = Inr (v, p) \<Longrightarrow> p = url"
  by (induction stdin) (auto simp: Let_def split: if_splits prod.splits)

lemma confirm_loop_find:
  "List.find is_answer stdin = Some line \<Longrightarrow>
   snd (confirm_loop stdin url) = Inr (py_lower (py_strip line) \<in> set [''y'', ''yes''], url)"
proof (induction stdin)
  case Nil
  then show ?case by simp
next
  case (Cons a stdin)
  show ?case
  proof (cases "is_answer a")
    case True
    with Cons.prems have "line = a" by simp
    with True show ?thesis by (auto simp: is_answer_def Let_def)
  next
    case False
    with Cons.prems have "List.find is_answer stdin = Some line" by simp
    from Cons.IH [OF this] False show ?thesis
      by (auto simp: is_answer_def Let_def split: prod.splits)
  qed
qed

text \<open>
  Claim C5. Whenever \<open>validate_url\<close> returns a pair, its second component is the input
  with the surrounding white space stripped, and nothing else is changed. It returns
  such a pair in each of the four outcomes: accepted because a pattern matches, accepted
  because the probe of the extraction library succeeds, and, when neither holds,
  rejected at once without interaction, or accepted or rejected by the first line of
  standard input that is an answer.
\<close>

theorem validate_url_processed:
  "(\<forall>v p. snd (validate_url re_match extract_info stdin u interactive) = Inr (v, p)
      \<longrightarrow> p = py_strip u) \<and>
   (matches_youtube_pattern re_match (py_strip u) \<longrightarrow>
      snd (validate_url re_match extract_info stdin u interactive) = Inr (True, py_strip u)) \<and>
   (\<not> matches_youtube_pattern re_match (py_strip u) \<and>
    test_url_with_ydlp extract_info (py_strip u) = Inr True \<longrightarrow>
      snd (validate_url re_match extract_info stdin u interactive) = Inr (True, py_strip u)) \<and>
   (\<not> matches_youtube_pattern re_match (py_strip u) \<and>
    test_url_with_ydlp extract_info (py_strip u) = Inr False \<and> \<not> interactive \<longrightarrow>
      snd (validate_url re_match extract_info stdin u interactive) = Inr (False, py_strip u)) \<and>
   (\<not> matches_youtube_pattern re_match (py_strip u) \<and>
    test_url_with_ydlp extract_info (py_strip u) = Inr False \<and> interactive \<and>
    List.find is_answer stdin = Some line \<longrightarrow>
      snd (validate_url re_match extract_info stdin u interactive)
        = Inr (py_lower (py_strip line) \<in> set [''y'', ''yes''], py_strip u))"
proof (intro conjI allI impI)
  fix v p
  assume "snd (validate_url re_match extract_info stdin u interactive) = Inr (v, p)"
  then show "p = py_strip u"
    using confirm_loop_url [of stdin "py_strip u" v p]
    by (auto simp: validate_url_def Let_def split: if_splits sum.splits bool.splits prod.splits)
next
  assume "\<not> matches_youtube_pattern re_match (py_strip u) \<and>
    test_url_with_ydlp extract_info (py_strip u) = Inr False \<and> interactive \<and>
    List.find is_answer stdin = Some line"
  then show "snd (validate_url re_match extract_info stdin u interactive)
        = Inr (py_lower (py_strip line) \<in> set [''y'', ''yes''], py_strip u)"
    using confirm_loop_find [of stdin line "py_strip u"]
    by (auto simp: validate_url_def Let_def split: prod.splits)
qed (simp_all add: validate_url_def Let_def)

theorem validate_url_processed_witness:
  "snd (validate_url never_matching failing_extractor [''maybe'', '' Y ''] ''  example.com/v  '' True)
     = Inr (True, ''example.com/v'') \<and>
   snd (validate_url never_matching failing_extractor [] ''  example.com/v  '' False)
     = Inr (False, ''example.com/v'') \<and>
   snd (validate_url never_matching sample_extractor [] ''  example.com/v  '' False)
     = Inr (True, ''example.com/v'')"
proof -
  let ?u = "''  example.com/v  ''"
  have u: "py_strip ?u = ''example.com/v''" by code_simp
  have m: "\<not> matches_youtube_pattern never_matching (py_strip ?u)"
    by (simp add: matches_youtube_pattern_def never_matching_def list_ex_iff)
  have t: "test_url_with_ydlp failing_extractor (py_strip ?u) = Inr False"
    by (simp add: test_url_with_ydlp_def failing_extractor_def)
  have t': "test_url_with_ydlp sample_extractor (py_strip ?u) = Inr True"
    by (simp add: test_url_with_ydlp_def sample_extractor_def)
  have a: "\<not> is_answer ''maybe''" "is_answer '' Y ''" unfolding is_answer_def by code_simp+
  then have f: "List.find is_answer [''maybe'', '' Y ''] = Some '' Y ''" by simp
  have y: "py_lower (py_strip '' Y '') \<in> set [''y'', ''yes'']" by code_simp
  note T = validate_url_processed [of never_matching _ _ ?u]
  have "snd (validate_url never_matching failing_extractor [''maybe'', '' Y ''] ?u True)
          = Inr (py_lower (py_strip '' Y '') \<in> set [''y'', ''yes''], py_strip ?u)"
    using T [of failing_extractor "[''maybe'', '' Y '']" True "'' Y ''"] m t f by blast
  then have 1: "snd (validate_url never_matching failing_extractor [''maybe'', '' Y ''] ?u True)
             = Inr (True, ''example.com/v'')"
    using y by (simp only: u simp_thms)
  have "snd (validate_url never_matching failing_extractor [] ?u False) = Inr (False, py_strip ?u)"
    using T [of failing_extractor "[]" False] m t by blast
  then have 2: "snd (validate_url never_matching failing_extractor [] ?u False)
             = Inr (False, ''example.com/v'')"
    by (simp only: u)
  have "snd (validate_url never_matching sample_extractor [] ?u False) = Inr (True, py_strip ?u)"
    using T [of sample_extractor "[]" False] m t' by blast
  then have 3: "snd (validate_url never_matching sample_extractor [] ?u False)
             = Inr (True, ''example.com/v'')"
    by (simp only: u)
  show ?thesis using 1 2 3 by blast
qed

text \<open>
  Claim C6, as amended. \<open>get_video_info\<close> queries the library with downloading disabled
  and with nothing else: two libraries that agree on such queries give the same result.
  It returns what the library returns, metadata or \<^verbatim>\<open>None\<close>; when the extraction raises an
  exception derived from \<^verbatim>\<open>Exception\<close> the result is \<^verbatim>\<open>None\<close>; an exception that does not
  derive from \<^verbatim>\<open>Exception\<close> is propagated.
\<close>

theorem get_video_info_result:
  "(extract_info [(''quiet'', PBool True), (''no_warnings'', PBool True),
                  (''extract_flat'', PBool extract_flat)] url False = Inr info \<longrightarrow>
      snd (get_video_info extract_info url extract_flat) = Inr info) \<and>
   (extract_info [(''quiet'', PBool True), (''no_warnings'', PBool True),
                  (''extract_flat'', PBool extract_flat)] url False = Inl e \<and> is_Exception e \<longrightarrow>
      snd (get_video_info extract_info url extract_flat) = Inr None) \<and>
   (extract_info [(''quiet'', PBool True), (''no_warnings'', PBool True),
                  (''extract_flat'', PBool extract_flat)] url False = Inl e \<and> \<not> is_Exception e \<longrightarrow>
      snd (get_video_info extract_info url extract_flat) = Inl e) \<and>
   ((\<forall>opts u. extract_info opts u False = other opts u False) \<longrightarrow>
      get_video_info extract_info url extract_flat = get_video_info other url extract_flat)"
  by (simp add: get_video_info_def)

theorem get_video_info_result_witness:
  "snd (get_video_info sample_extractor ''https://youtu.be/abc'' False)
     = Inr (Some [(''title'', PStr ''Sample''), (''duration'', PInt 125)]) \<and>
   snd (get_video_info failing_extractor ''https://youtu.be/abc'' False) = Inr None"
proof -
  let ?o = "[(''quiet'', PBool True), (''no_warnings'', PBool True), (''extract_flat'', PBool False)]"
  have a: "sample_extractor ?o ''https://youtu.be/abc'' False
             = Inr (Some [(''title'', PStr ''Sample''), (''duration'', PInt 125)])"
    by (simp add: sample_extractor_def)
  have b: "failing_extractor ?o ''https://youtu.be/abc'' False = Inl (DownloadError ''Unsupported URL'')
           \<and> is_Exception (DownloadError ''Unsupported URL'')"
    by (simp add: failing_extractor_def)
  show ?thesis
    using get_video_info_result [of sample_extractor False "''https://youtu.be/abc''"
        "Some [(''title'', PStr ''Sample''), (''duration'', PInt 125)]"] a
      get_video_info_result [of failing_extractor False "''https://youtu.be/abc''" _
        "DownloadError ''Unsupported URL''"] b
    by simp
qed

text \<open>
  An extraction that is interrupted from the keyboard does not yield \<^verbatim>\<open>None\<close>: the
  interrupt leaves \<open>get_video_info\<close>.
\<close>

theorem get_video_info_interrupted:
  "snd (get_video_info interrupted_extractor ''https://youtu.be/abc'' False) = Inl KeyboardInterrupt"
  by (simp add: get_video_info_def interrupted_extractor_def)

section \<open>Properties of the download\<close>

text \<open>
  The announcement completes for a playlist, without metadata, and when the duration is
  an integer or is absent.
\<close>

lemma announce_completes:
  assumes "is_playlist \<or> video_info = None \<or> video_info = Some [] \<or>
           (\<exists>n. dict_get (the video_info) ''duration'' (PInt 0) = PInt n)"
  shows "snd (announce self is_playlist video_info force_convert) = None"
  using assms
  by (auto simp: announce_def Let_def duration_line_def split: option.splits sum.splits)

lemma announce_raises_Exception:
  "snd (announce self is_playlist video_info force_convert) = Some e \<Longrightarrow> is_Exception e"
  by (auto simp: announce_def Let_def duration_line_def split: if_splits sum.splits pyval.splits)

text \<open>
  Claim C4, as amended. \<open>download\<close> makes at most one acquisition call, with the options
  built by \<open>get_ydl_opts\<close> and the URL. When it is silent, or when the announcement that
  precedes the call completes, it makes exactly one call and returns \<^verbatim>\<open>True\<close> if the call
  completes, \<^verbatim>\<open>False\<close> if the call raises an exception derived from \<^verbatim>\<open>Exception\<close>, and lets
  any other exception through. When the library raises only exceptions derived from
  \<^verbatim>\<open>Exception\<close>, the result is always a boolean. In every case, an exception that leaves
  \<open>download\<close> is not derived from \<^verbatim>\<open>Exception\<close> and was raised by the one acquisition call.
\<close>

theorem download_result:
  "(case download acquire self url quality is_playlist video_info force_convert silent of
      (out, calls, result) \<Rightarrow>
        (calls = [] \<or>
         calls = [(get_ydl_opts self quality is_playlist video_info force_convert, [url])]) \<and>
        (silent \<or> snd (announce self is_playlist video_info force_convert) = None \<longrightarrow>
           calls = [(get_ydl_opts self quality is_playlist video_info force_convert, [url])] \<and>
           (acquire (get_ydl_opts self quality is_playlist video_info force_convert) [url] = None
              \<longrightarrow> result = Inr True) \<and>
           (\<forall>e. acquire (get_ydl_opts self quality is_playlist video_info force_convert) [url] = Some e
              \<longrightarrow> result = (if is_Exception e then Inr False else Inl e))) \<and>
        ((\<forall>e. acquire (get_ydl_opts self quality is_playlist video_info force_convert) [url] = Some e
              \<longrightarrow> is_Exception e) \<longrightarrow>
           (\<exists>b. result = Inr b)) \<and>
        (\<forall>e. result = Inl e \<longrightarrow>
           \<not> is_Exception e \<and>
           calls = [(get_ydl_opts self quality is_playlist video_info force_convert, [url])] \<and>
           acquire (get_ydl_opts self quality is_playlist video_info force_convert) [url] = Some e))"
  using announce_raises_Exception [of self is_playlist video_info force_convert]
  by (auto simp: download_def download_failed_def Let_def split: prod.splits option.splits if_splits)

theorem download_result_witness:
  "snd (snd (download completing_acquirer (YouTubeDownloader_init ''.'' None None None)
               ''https://youtu.be/abc'' BEST False None False True)) = Inr True \<and>
   length (fst (snd (download completing_acquirer (YouTubeDownloader_init ''.'' None None None)
               ''https://youtu.be/abc'' BEST False None False True))) = 1 \<and>
   snd (snd (download failing_acquirer (YouTubeDownloader_init ''.'' None None None)
               ''https://youtu.be/abc'' BEST False None False True)) = Inr False \<and>
   snd (snd (download completing_acquirer (YouTubeDownloader_init ''.'' None None None)
               ''https://youtu.be/abc'' HD_720 False
               (Some [(''title'', PStr ''Sample''), (''duration'', PInt 125)]) True False)) = Inr True \<and>
   length (fst (snd (download completing_acquirer (YouTubeDownloader_init ''.'' None None None)
               ''https://youtu.be/abc'' HD_720 False
               (Some [(''title'', PStr ''Sample''), (''duration'', PInt 125)]) True False))) = 1 \<and>
   snd (snd (download failing_acquirer (YouTubeDownloader_init ''.'' None None None)
               ''https://youtu.be/abc'' HD_720 False
               (Some [(''title'', PStr ''Sample''), (''duration'', PInt 125)]) True False)) = Inr False \<and>
   \<not> is_Exception KeyboardInterrupt \<and>
   snd (snd (download interrupted_acquirer (YouTubeDownloader_init ''.'' None None None)
               ''https://youtu.be/abc'' HD_720 False
               (Some [(''title'', PStr ''Sample''), (''duration'', PInt 125)]) True False))
     = Inl KeyboardInterrupt"
proof -
  let ?s = "YouTubeDownloader_init ''.'' None None (None :: unit option)"
  let ?u = "''https://youtu.be/abc''"
  let ?i = "Some [(''title'', PStr ''Sample''), (''duration'', PInt 125)]"
  have an: "snd (announce ?s False ?i True) = None"
    by (simp add: announce_def dict_get_def duration_line_def Let_def)
  have 1: "snd (snd (download completing_acquirer ?s ?u BEST False None False True)) = Inr True \<and>
           length (fst (snd (download completing_acquirer ?s ?u BEST False None False True))) = 1"
    using download_result [where acquire = completing_acquirer and self = ?s and url = ?u
        and quality = BEST and is_playlist = False and video_info = None and force_convert = False
        and silent = True]
    by (auto simp: completing_acquirer_def split: prod.splits)
  have 2: "snd (snd (download failing_acquirer ?s ?u BEST False None False True)) = Inr False"
    using download_result [where acquire = failing_acquirer and self = ?s and url = ?u
        and quality = BEST and is_playlist = False and video_info = None and force_convert = False
        and silent = True]
    by (auto simp: failing_acquirer_def split: prod.splits)
  have 3: "snd (snd (download completing_acquirer ?s ?u HD_720 False ?i True False)) = Inr True \<and>
           length (fst (snd (download completing_acquirer ?s ?u HD_720 False ?i True False))) = 1"
    using download_result [where acquire = completing_acquirer and self = ?s and url = ?u
        and quality = HD_720 and is_playlist = False and video_info = ?i and force_convert = True
        and silent = False] an
    by (auto simp: completing_acquirer_def split: prod.splits)
  have 4: "snd (snd (download failing_acquirer ?s ?u HD_720 False ?i True False)) = Inr False"
    using download_result [where acquire = failing_acquirer and self = ?s and url = ?u
        and quality = HD_720 and is_playlist = False and video_info = ?i and force_convert = True
        and silent = False] an
    by (auto simp: failing_acquirer_def split: prod.splits)
  have 5: "snd (snd (download interrupted_acquirer ?s ?u HD_720 False ?i True False))
             = Inl KeyboardInterrupt"
    using download_result [where acquire = interrupted_acquirer and self = ?s and url = ?u
        and quality = HD_720 and is_playlist = False and video_info = ?i and force_convert = True
        and silent = False] an
    by (auto simp: interrupted_acquirer_def split: prod.splits)
  show ?thesis using 1 2 3 4 5 by simp
qed

text \<open>
  A keyboard interrupt during the acquisition is propagated to the caller. With a
  duration that is a float the announcement fails on the format \<^verbatim>\<open>02d\<close>: the result is
  \<^verbatim>\<open>False\<close> and no acquisition call is made, although the library would have completed.
\<close>

theorem download_propagates_or_skips:
  "snd (snd (download interrupted_acquirer (YouTubeDownloader_init ''.'' None None None)
               ''https://youtu.be/abc'' BEST False None False True)) = Inl KeyboardInterrupt \<and>
   download completing_acquirer (YouTubeDownloader_init ''.'' None None None)
     ''https://youtu.be/abc'' BEST False (Some [(''duration'', PFloat (181 / 2))]) False False
     = ([Starting_download False, Preferring_mp4, Title_msg (PStr ''Unknown''),
         Uploader_msg (PStr ''Unknown''), Download_failed ValueError, Tips_header, Tip_quality,
         Tip_force_convert, Tip_region],
        [], Inr False)"
  by (simp add: download_def download_failed_def interrupted_acquirer_def announce_def
      YouTubeDownloader_init_def dict_get_def duration_line_def Let_def)

end
